theory Spec2Isabelle
  imports Complex_Main "HOL-Library.Word" "HOL-Library.Multiset"
begin

section \<open>The sidecar environment client (src/shared/clients/mdeEnvironmentClient.ts)\<close>

text \<open>
  The process environment is a finite table from variable names to string values; a
  variable that is not set has no entry (\<open>process.env[k]\<close> is \<open>undefined\<close>).
\<close>

type_synonym process_env = "string \<rightharpoonup> string"

definition ENVIRONMENT_ARN_KEY :: string where
  "ENVIRONMENT_ARN_KEY = ''__ENVIRONMENT_ARN''"

definition MDE_ENVIRONMENT_ENDPOINT :: string where
  "MDE_ENVIRONMENT_ENDPOINT = ''http://127.0.0.1:1339''"

datatype Status = PENDING | STABLE | CHANGED

record GetStatusResponse =
  actionId :: "string option"
  message :: "string option"
  status :: "Status option"

record CreateDevfileRequest =
  path :: "string option"

record CreateDevfileResponse =
  location :: "string option"

record StartDevfileRequest =
  location :: "string option"
  recreateHomeVolumes :: "bool option"

text \<open>
  A call of \<open>got\<close>: the method, the URL and the object passed as the \<open>json\<close> option
  (\<open>got\<close> serialises it as the request body). \<open>got(url, ...)\<close> without a method is a GET.
\<close>

datatype http_method = GET | POST

datatype json_body = StartBody StartDevfileRequest | CreateBody CreateDevfileRequest

record http_request =
  http_method :: http_method
  url :: string
  json :: "json_body option"

text \<open>
  The class has one private field, the endpoint; the constructor's parameter defaults to
  \<open>MDE_ENVIRONMENT_ENDPOINT\<close> when no argument is passed.
\<close>

record DefaultMdeEnvironmentClient =
  endpoint :: string

definition new_DefaultMdeEnvironmentClient :: "string option \<Rightarrow> DefaultMdeEnvironmentClient" where
  "new_DefaultMdeEnvironmentClient arg =
     \<lparr>endpoint = (case arg of None \<Rightarrow> MDE_ENVIRONMENT_ENDPOINT | Some e \<Rightarrow> e)\<rparr>"

text \<open>The getter \<open>arn\<close>: the raw entry of the environment table.\<close>

definition arn :: "process_env \<Rightarrow> string option" where
  "arn env = env ENVIRONMENT_ARN_KEY"

text \<open>
  The HTTP layer is the parameter \<open>got\<close>: it maps a request to a failure or to the parsed
  response body. Each operation returns the requests it issued together with its result,
  so that what is sent is part of the model. An \<open>await\<close> of a failed request rethrows.
\<close>

datatype http_error = HttpError string

definition startDevfile ::
  "DefaultMdeEnvironmentClient \<Rightarrow> (http_request \<Rightarrow> http_error + 'r) \<Rightarrow> StartDevfileRequest
     \<Rightarrow> http_request list \<times> (http_error + unit)" where
  "startDevfile this got request =
     (let rq = \<lparr>http_method = POST, url = endpoint this @ ''/start'',
                json = Some (StartBody request)\<rparr>
      in ([rq], case got rq of Inl e \<Rightarrow> Inl e | Inr _ \<Rightarrow> Inr ()))"

definition createDevfile ::
  "DefaultMdeEnvironmentClient \<Rightarrow> (http_request \<Rightarrow> http_error + CreateDevfileResponse)
     \<Rightarrow> CreateDevfileRequest \<Rightarrow> http_request list \<times> (http_error + CreateDevfileResponse)" where
  "createDevfile this got request =
     (let rq = \<lparr>http_method = POST, url = endpoint this @ ''/devfile/create'',
                json = Some (CreateBody request)\<rparr>
      in ([rq], case got rq of Inl e \<Rightarrow> Inl e | Inr body \<Rightarrow> Inr body))"

definition getStatus ::
  "DefaultMdeEnvironmentClient \<Rightarrow> (http_request \<Rightarrow> http_error + GetStatusResponse)
     \<Rightarrow> http_request list \<times> (http_error + GetStatusResponse)" where
  "getStatus this got =
     (let rq = \<lparr>http_method = GET, url = endpoint this @ ''/status'', json = None\<rparr>
      in ([rq], case got rq of Inl e \<Rightarrow> Inl e | Inr body \<Rightarrow> Inr body))"

text \<open>
  \<open>getEnvArn\<close>: the conditional tests the JavaScript truthiness of the entry; of all
  strings only the empty one is falsy, and so is \<open>undefined\<close>.
\<close>

definition truthy_string :: "string option \<Rightarrow> bool" where
  "truthy_string v = (case v of None \<Rightarrow> False | Some s \<Rightarrow> s \<noteq> [])"

definition getEnvArn :: "process_env \<Rightarrow> string option" where
  "getEnvArn env =
     (if truthy_string (env ''__ENVIRONMENT_ARN'') then env ''__ENVIRONMENT_ARN'' else None)"


section \<open>The S3 download commands (src/s3/commands/downloadFileAs.ts)\<close>

subsection \<open>Objects, locations and errors\<close>

type_synonym byte = "8 word"

record Bucket =
  name :: string
  region :: string

record S3File =
  bucket :: Bucket
  key :: string
  name :: string
  sizeBytes :: nat

text \<open>
  A \<open>vscode.Uri\<close> as far as the commands read it: its \<open>path\<close> and its \<open>fsPath\<close>.
  \<open>Uri.file p\<close> is written for a POSIX host, where both are the given path.
\<close>

record Uri =
  path :: string
  fsPath :: string

definition Uri_file :: "string \<Rightarrow> Uri" where
  "Uri_file p = \<lparr>path = p, fsPath = p\<rparr>"

text \<open>
  \<open>path.join\<close> of Node on a POSIX host, for two arguments: the non-empty arguments are
  joined by the separator and the result is normalised as \<open>path.normalize\<close> does, segment
  by segment: empty segments and \<open>.\<close> are dropped, \<open>..\<close> removes the segment before it
  (above the root of an absolute path it is dropped, in front of a relative path it is
  kept), and a trailing separator is kept.
\<close>

fun split_path :: "string \<Rightarrow> string list" where
  "split_path [] = [[]]"
| "split_path (c # cs) =
     (if c = CHR ''/'' then [] # split_path cs
      else (case split_path cs of [] \<Rightarrow> [[c]] | seg # segs \<Rightarrow> (c # seg) # segs))"

fun normalizeString :: "bool \<Rightarrow> string list \<Rightarrow> string list \<Rightarrow> string list" where
  "normalizeString allowAboveRoot res [] = rev res"
| "normalizeString allowAboveRoot res (seg # segs) =
     (if seg = [] \<or> seg = ''.'' then normalizeString allowAboveRoot res segs
      else if seg = ''..'' then
        (case res of
           [] \<Rightarrow> normalizeString allowAboveRoot (if allowAboveRoot then [''..''] else []) segs
         | seg0 # below \<Rightarrow>
             if seg0 = ''..''
             then normalizeString allowAboveRoot (if allowAboveRoot then ''..'' # res else res) segs
             else normalizeString allowAboveRoot below segs)
      else normalizeString allowAboveRoot (seg # res) segs)"

fun join_segments :: "string list \<Rightarrow> string" where
  "join_segments [] = []"
| "join_segments [seg] = seg"
| "join_segments (seg # segs) = seg @ ''/'' @ join_segments segs"

definition path_normalize :: "string \<Rightarrow> string" where
  "path_normalize p =
     (if p = [] then ''.''
      else (let isAbsolute = (hd p = CHR ''/'');
                trailingSeparator = (last p = CHR ''/'');
                body = join_segments (normalizeString (\<not> isAbsolute) [] (split_path p))
            in if body = []
               then (if isAbsolute then ''/'' else if trailingSeparator then ''./'' else ''.'')
               else (if isAbsolute then ''/'' else []) @ body
                    @ (if trailingSeparator then ''/'' else [])))"

definition path_join :: "string \<Rightarrow> string \<Rightarrow> string" where
  "path_join dir seg =
     (let joined = (if dir = [] then seg else if seg = [] then dir else dir @ ''/'' @ seg)
      in if joined = [] then ''.'' else path_normalize joined)"

text \<open>The \<open>details\<close> object that \<open>downloadFile\<close> attaches to the error it throws.\<close>

record ErrorDetails =
  bucket :: Bucket
  path :: string
  destination :: "string option"

text \<open>
  Errors as values. \<open>CancellationError agent\<close> is the class of timeoutUtils;
  \<open>ServiceError\<close> stands for whatever the object store's client or its stream raises,
  \<open>FilesystemError\<close> for what Node's \<open>fs\<close> raises (with its code), and
  \<open>ToolkitError cause message details\<close> is the value of
  \<open>ToolkitError.chain(cause, message, {details})\<close>.
\<close>

datatype error =
    CancellationError string
  | ServiceError string
  | FilesystemError string
  | ToolkitError error string ErrorDetails

subsection \<open>Byte streams\<close>

text \<open>
  A readable stream is the sequence of its events: \<open>data\<close> chunks, closed by \<open>end\<close> or
  by \<open>error\<close>.
\<close>

datatype Readable = End | Error error | Data "byte list" Readable

fun chunk_count :: "Readable \<Rightarrow> nat" where
  "chunk_count End = 0"
| "chunk_count (Error e) = 0"
| "chunk_count (Data c s) = Suc (chunk_count s)"

fun received :: "Readable \<Rightarrow> byte list" where
  "received End = []"
| "received (Error e) = []"
| "received (Data c s) = c @ received s"

fun failure :: "Readable \<Rightarrow> error option" where
  "failure End = None"
| "failure (Error e) = Some e"
| "failure (Data c s) = failure s"

text \<open>
  \<open>stream.destroy(err)\<close> called once \<open>k\<close> chunks have been delivered: the stream delivers
  nothing more and closes with \<open>err\<close>. On a stream that has already closed (fewer than
  \<open>k\<close> chunks before its \<open>end\<close> or \<open>error\<close>) the call changes nothing.
\<close>

fun destroy :: "nat \<Rightarrow> error \<Rightarrow> Readable \<Rightarrow> Readable" where
  "destroy 0 err s = Error err"
| "destroy (Suc k) err End = End"
| "destroy (Suc k) err (Error e) = Error e"
| "destroy (Suc k) err (Data c s) = Data c (destroy k err s)"

text \<open>
  Several handlers may call \<open>destroy\<close> on one stream; the first call wins, a later call
  on the destroyed stream does nothing. Each request is the number of chunks delivered
  when it is made and the error it passes; of two requests at the same point the one
  registered first is served.
\<close>

fun earliest :: "(nat \<times> error) list \<Rightarrow> (nat \<times> error) option" where
  "earliest [] = None"
| "earliest (r # rs) =
     (case earliest rs of
        None \<Rightarrow> Some r
      | Some r' \<Rightarrow> if fst r' < fst r then Some r' else Some r)"

definition destroyed :: "(nat \<times> error) list \<Rightarrow> Readable \<Rightarrow> Readable" where
  "destroyed requests s =
     (case earliest requests of None \<Rightarrow> s | Some (k, err) \<Rightarrow> destroy k err s)"

subsection \<open>The local file system\<close>

text \<open>
  The directories and files that exist, each under its normalised path without a
  trailing separator, and the paths at which the operating system refuses to create a
  directory or to write a file for a reason of its own, with the error code it raises
  (\<open>EACCES\<close> without permission, \<open>EROFS\<close> on a read-only volume, \<open>ENOSPC\<close>, ...). The
  root and the working directory always exist.
\<close>

record filesystem =
  dirs :: "string set"
  files :: "string \<rightharpoonup> byte list"
  refused :: "string \<rightharpoonup> string"

text \<open>The name under which the file system knows a path, and the directory above it.\<close>

definition entry :: "string \<Rightarrow> string" where
  "entry p =
     (let n = path_normalize p
      in if 1 < length n \<and> last n = CHR ''/'' then butlast n else n)"

definition dirname :: "string \<Rightarrow> string" where
  "dirname k =
     (case dropWhile (\<lambda>c. c \<noteq> CHR ''/'') (rev k) of
        [] \<Rightarrow> ''.''
      | sep # up \<Rightarrow> if up = [] then ''/'' else rev up)"

definition isDirectory :: "filesystem \<Rightarrow> string \<Rightarrow> bool" where
  "isDirectory fs k = (k = ''/'' \<or> k = ''.'' \<or> k \<in> dirs fs)"

text \<open>
  \<open>fs.existsSync\<close>: whether the path names a directory or a file; a path with a trailing
  separator names only a directory, and the empty path names nothing.
\<close>

definition existsSync :: "filesystem \<Rightarrow> string \<Rightarrow> bool" where
  "existsSync fs p =
     (p \<noteq> [] \<and> (isDirectory fs (entry p)
                 \<or> (files fs (entry p) \<noteq> None \<and> last p \<noteq> CHR ''/'')))"

text \<open>
  \<open>fs.mkdirSync\<close> without options creates one directory and throws otherwise: \<open>ENOTDIR\<close>
  when the path above is a file, \<open>ENOENT\<close> when it does not exist, \<open>EEXIST\<close> when the
  path itself exists, and whatever the operating system raises when it refuses.
\<close>

definition mkdirSync :: "filesystem \<Rightarrow> string \<Rightarrow> error + filesystem" where
  "mkdirSync fs p =
     (if p = [] then Inl (FilesystemError ''ENOENT'')
      else if files fs (dirname (entry p)) \<noteq> None then Inl (FilesystemError ''ENOTDIR'')
      else if \<not> isDirectory fs (dirname (entry p)) then Inl (FilesystemError ''ENOENT'')
      else if isDirectory fs (entry p) \<or> files fs (entry p) \<noteq> None
        then Inl (FilesystemError ''EEXIST'')
      else (case refused fs (entry p) of
              Some code \<Rightarrow> Inl (FilesystemError code)
            | None \<Rightarrow> Inr (fs\<lparr>dirs := insert (entry p) (dirs fs)\<rparr>)))"

subsection \<open>Stream sinks (src/shared/utilities/streamUtilities.ts is not among the sources)\<close>

text \<open>
  Modelled from the spec: \<open>streamToFile\<close>, which is missing from the sources. It "writes
  the stream to that path, creating/overwriting as needed"; a "filesystem write error" is
  a failure (the file system refuses the path when the sink opens it, before the first
  chunk), and on a stream that closes with an error the bytes written so far stay in
  the file ("any partially-written file is left" to the caller).
\<close>

definition streamToFile :: "Readable \<Rightarrow> Uri \<Rightarrow> filesystem \<Rightarrow> (error + unit) \<times> filesystem" where
  "streamToFile s target fs =
     (case refused fs (fsPath target) of
        Some code \<Rightarrow> (Inl (FilesystemError code), fs)
      | None \<Rightarrow>
          (case failure s of None \<Rightarrow> Inr () | Some e \<Rightarrow> Inl e,
           fs\<lparr>files := (files fs)(fsPath target \<mapsto> received s)\<rparr>))"

text \<open>
  Modelled from the spec: \<open>streamToBuffer\<close>, which is missing from the sources. It
  "accumulates the full stream into memory, pre-sized using sizeBytes as a hint (not a
  hard cap)": the writer allocates \<open>sizeHint\<close> bytes, copies each chunk behind the bytes
  already written, enlarges its storage when a chunk does not fit, and hands out the
  written prefix at the end.
\<close>

record BufferWriter =
  storage :: "byte list"
  written :: nat

definition allocate :: "nat \<Rightarrow> BufferWriter" where
  "allocate sizeHint = \<lparr>storage = replicate sizeHint 0, written = 0\<rparr>"

definition writeChunk :: "BufferWriter \<Rightarrow> byte list \<Rightarrow> BufferWriter" where
  "writeChunk w chunk =
     (let need = written w + length chunk;
          room = (if need \<le> length (storage w) then storage w
                  else storage w @ replicate (need - length (storage w)) 0)
      in \<lparr>storage = take (written w) room @ chunk @ drop need room, written = need\<rparr>)"

definition contents :: "BufferWriter \<Rightarrow> byte list" where
  "contents w = take (written w) (storage w)"

fun pump :: "Readable \<Rightarrow> BufferWriter \<Rightarrow> error + BufferWriter" where
  "pump End w = Inr w"
| "pump (Error e) w = Inl e"
| "pump (Data c s) w = pump s (writeChunk w c)"

definition streamToBuffer :: "Readable \<Rightarrow> nat \<Rightarrow> error + byte list" where
  "streamToBuffer s sizeHint =
     (case pump s (allocate sizeHint) of Inl e \<Rightarrow> Inl e | Inr w \<Rightarrow> Inr (contents w))"

subsection \<open>Progress reporter (src/s3/progressReporter.ts is not among the sources)\<close>

text \<open>
  Modelled from the spec: \<open>progressReporter\<close>, which is missing from the sources. It
  "tracks a running total of bytes received; on each delta, computes a ... percentage
  against the hint, clamped to [0, 100] even if actual bytes exceed the hint". The
  percentage is the exact quotient; once the total has reached the hint it is 100
  (also for a hint of 0, where there is no quotient).
\<close>

definition percentage :: "nat \<Rightarrow> nat \<Rightarrow> rat" where
  "percentage totalBytes loaded =
     (if totalBytes \<le> loaded then 100 else 100 * of_nat loaded / of_nat totalBytes)"

text \<open>The reports for a sequence of deltas, from the running total \<open>loaded\<close>.\<close>

fun reports :: "nat \<Rightarrow> nat \<Rightarrow> nat list \<Rightarrow> rat list" where
  "reports totalBytes loaded [] = []"
| "reports totalBytes loaded (delta # deltas) =
     percentage totalBytes (loaded + delta) # reports totalBytes (loaded + delta) deltas"

definition progressReporter :: "nat \<Rightarrow> nat list \<Rightarrow> rat list" where
  "progressReporter totalBytes deltas = reports totalBytes 0 deltas"

subsection \<open>Single-file download\<close>

text \<open>
  The object store's client, as far as the commands call it: \<open>downloadFileStream\<close> opens
  the stream of a bucket's key, or fails.
\<close>

record S3Client =
  downloadFileStream :: "string \<Rightarrow> string \<Rightarrow> error + Readable"

text \<open>
  \<open>vscode.ProgressLocation\<close>; \<open>StatusBar\<close> is the member the API calls \<open>Window\<close>. Every
  member is a non-zero number, hence truthy.
\<close>

datatype ProgressLocation = SourceControl | StatusBar | Notification

text \<open>
  A \<open>Timeout\<close> carries a cancellation token. Whether and when the token fires belongs
  to the run: \<open>fires = Some (k, agent)\<close> says that it fires once \<open>k\<close> chunks of the
  download have been delivered, on behalf of \<open>agent\<close>.
\<close>

record Timeout =
  fires :: "(nat \<times> string) option"

text \<open>
  A \<open>Window\<close> shows progress notifications and the folder dialog. \<open>cancelPressed = Some k\<close>
  says that the user presses the notification's Cancel button once \<open>k\<close> chunks have been
  delivered; \<open>openDialog\<close> is what \<open>showOpenDialog\<close> resolves to.
\<close>

record Window =
  cancelPressed :: "nat option"
  openDialog :: "Uri list option"

record DownloadFileOptions =
  progressLocation :: "ProgressLocation option"
  saveLocation :: "Uri option"
  window :: "Window option"
  timeout :: "Timeout option"
  client :: "S3Client option"

text \<open>
  What is ambient in the extension host: the window \<open>Window.vscode()\<close> and the
  constructor \<open>new DefaultS3Client(region)\<close>.
\<close>

record Host =
  vscode :: Window
  DefaultS3Client :: "string \<Rightarrow> S3Client"

datatype download = Buffer "byte list" | Void

text \<open>
  \<open>withProgress\<close> hands its task a token that fires when the user presses Cancel, which
  the notification offers only when it is \<open>cancellable\<close>.
\<close>

definition withProgress :: "Window \<Rightarrow> bool \<Rightarrow> nat option" where
  "withProgress w cancellable = (if cancellable then cancelPressed w else None)"

text \<open>
  The calls of \<open>downloadStream.destroy\<close> that \<open>downloadS3File\<close> arranges: one by the
  handler on the timeout's token, with the agent the token reports, and one by the
  handler on the progress notification's token, with the agent \<open>user\<close>.
\<close>

definition destroy_requests :: "Host \<Rightarrow> DownloadFileOptions option \<Rightarrow> (nat \<times> error) list" where
  "destroy_requests host options =
     (case Option.bind options timeout of
        None \<Rightarrow> []
      | Some t \<Rightarrow> (case fires t of None \<Rightarrow> [] | Some (k, agent) \<Rightarrow> [(k, CancellationError agent)]))
     @ (case Option.bind options progressLocation of
          None \<Rightarrow> []
        | Some loc \<Rightarrow>
            (case withProgress
                    (case Option.bind options window of None \<Rightarrow> vscode host | Some w \<Rightarrow> w)
                    (Option.bind options timeout \<noteq> None) of
               None \<Rightarrow> []
             | Some k \<Rightarrow> [(k, CancellationError ''user'')]))"

definition downloadS3File ::
  "Host \<Rightarrow> S3Client \<Rightarrow> S3File \<Rightarrow> DownloadFileOptions option \<Rightarrow> filesystem
     \<Rightarrow> (error + download) \<times> filesystem" where
  "downloadS3File host s3 file options fs =
     (case downloadFileStream s3 (Bucket.name (S3File.bucket file)) (key file) of
        Inl e \<Rightarrow> (Inl e, fs)
      | Inr downloadStream \<Rightarrow>
          (let stream = destroyed (destroy_requests host options) downloadStream in
           case Option.bind options saveLocation of
             Some target \<Rightarrow>
               (case streamToFile stream target fs of
                  (Inl e, fs') \<Rightarrow> (Inl e, fs')
                | (Inr _, fs') \<Rightarrow> (Inr Void, fs'))
           | None \<Rightarrow>
               (case streamToBuffer stream (sizeBytes file) of
                  Inl e \<Rightarrow> (Inl e, fs)
                | Inr b \<Rightarrow> (Inr (Buffer b), fs))))"

definition downloadFile ::
  "Host \<Rightarrow> S3File \<Rightarrow> DownloadFileOptions option \<Rightarrow> filesystem
     \<Rightarrow> (error + download) \<times> filesystem" where
  "downloadFile host file options fs =
     (let s3 = (case Option.bind options DownloadFileOptions.client of
                  Some c \<Rightarrow> c
                | None \<Rightarrow> DefaultS3Client host (region (S3File.bucket file)))
      in case downloadS3File host s3 file options fs of
           (Inl err, fs') \<Rightarrow>
             (Inl (ToolkitError err (''Failed to download file '' @ S3File.name file)
                    \<lparr>bucket = S3File.bucket file, path = key file,
                     destination = map_option Uri.path (Option.bind options saveLocation)\<rparr>),
              fs')
         | (Inr r, fs') \<Rightarrow> (Inr r, fs'))"

subsection \<open>Folder download\<close>

record S3DownloadFilesManager =
  client :: S3Client
  fileList :: "S3File list"
  failedToDownload :: "S3File list"
  totalDownloaded :: nat
  folderName :: "string option"

definition new_S3DownloadFilesManager ::
  "S3Client \<Rightarrow> S3File list \<Rightarrow> string option \<Rightarrow> S3DownloadFilesManager" where
  "new_S3DownloadFilesManager c fs folder =
     \<lparr>client = c, fileList = fs, failedToDownload = [], totalDownloaded = 0,
      folderName = folder\<rparr>"

definition promptForSaveFolderLocation :: "Window \<Rightarrow> Uri option" where
  "promptForSaveFolderLocation w =
     (case openDialog w of
        None \<Rightarrow> None
      | Some [] \<Rightarrow> None
      | Some (folderLocation # _) \<Rightarrow> Some folderLocation)"

text \<open>
  The state of a folder download after \<open>downloadAll\<close> has run its loop: the manager, the
  per-object downloads that the loop has started and that have not settled yet (each
  with the location it writes to), and the file system.
\<close>

record session =
  manager :: S3DownloadFilesManager
  inflight :: "(S3File \<times> Uri) list"
  disk :: filesystem

text \<open>
  The directory the objects go to: \<open>savePath\<close> after the block that creates the folder,
  for the location \<open>chosen\<close> in the dialog (\<open>saveLocation\<close> in the source). \<open>savePath\<close> is
  reassigned inside the \<open>if\<close> that tests \<open>existsSync\<close>.
\<close>

definition resolveSavePath ::
  "S3DownloadFilesManager \<Rightarrow> Uri \<Rightarrow> filesystem \<Rightarrow> error + string \<times> filesystem" where
  "resolveSavePath this chosen fs =
     (case folderName this of
        None \<Rightarrow> Inr (fsPath chosen, fs)
      | Some fname \<Rightarrow>
          if fname = [] then Inr (fsPath chosen, fs)
          else (let dir = path_join (fsPath chosen) fname in
                if \<not> existsSync fs dir
                then (case mkdirSync fs dir of Inl e \<Rightarrow> Inl e | Inr fs' \<Rightarrow> Inr (dir, fs'))
                else Inr (fsPath chosen, fs)))"

text \<open>
  \<open>downloadAll\<close>: the callback of \<open>forEach\<close> is an async function, so the loop starts one
  download per file and waits for none of them; a started download settles later, by
  \<open>settle\<close>.
\<close>

definition downloadAll :: "Host \<Rightarrow> S3DownloadFilesManager \<Rightarrow> filesystem \<Rightarrow> error + session" where
  "downloadAll host this fs =
     (case promptForSaveFolderLocation (vscode host) of
        None \<Rightarrow> Inl (CancellationError ''user'')
      | Some chosen \<Rightarrow>
          (case resolveSavePath this chosen fs of
             Inl e \<Rightarrow> Inl e
           | Inr (savePath, fs') \<Rightarrow>
               Inr \<lparr>manager = this,
                    inflight = map (\<lambda>file. (file, Uri_file (path_join savePath (S3File.name file))))
                                 (fileList this),
                    disk = fs'\<rparr>))"

definition callbackOptions :: "Host \<Rightarrow> S3DownloadFilesManager \<Rightarrow> Uri \<Rightarrow> DownloadFileOptions" where
  "callbackOptions host this target =
     \<lparr>progressLocation = Some Notification, saveLocation = Some target,
      window = Some (vscode host), timeout = None,
      client = Some (S3DownloadFilesManager.client this)\<rparr>"

text \<open>
  The rest of one callback: the \<open>i\<close>-th download in flight settles. When \<open>downloadFile\<close>
  fails, the \<open>catch\<close> pushes the file onto \<open>failedToDownload\<close>; when it succeeds the
  callback ends, and nothing is assigned to \<open>totalDownloaded\<close>.
\<close>

definition settle :: "Host \<Rightarrow> nat \<Rightarrow> session \<Rightarrow> session" where
  "settle host i s =
     (if i < length (inflight s) then
        (case inflight s ! i of
           (file, target) \<Rightarrow>
             (case downloadFile host file (Some (callbackOptions host (manager s) target)) (disk s) of
                (Inl error, fs') \<Rightarrow>
                  s\<lparr>manager := (manager s)\<lparr>failedToDownload := failedToDownload (manager s) @ [file]\<rparr>,
                    inflight := take i (inflight s) @ drop (Suc i) (inflight s),
                    disk := fs'\<rparr>
              | (Inr _, fs') \<Rightarrow>
                  s\<lparr>inflight := take i (inflight s) @ drop (Suc i) (inflight s), disk := fs'\<rparr>))
      else s)"

text \<open>The downloads in flight settle one at a time, in any order.\<close>

inductive step :: "Host \<Rightarrow> session \<Rightarrow> session \<Rightarrow> bool" for host where
  settles: "i < length (inflight s) \<Longrightarrow> step host s (settle host i s)"

subsection \<open>Notions used in the statements\<close>

text \<open>The bytes of the first \<open>k\<close> chunks of a stream.\<close>

fun delivered :: "nat \<Rightarrow> Readable \<Rightarrow> byte list" where
  "delivered 0 s = []"
| "delivered (Suc k) End = []"
| "delivered (Suc k) (Error e) = []"
| "delivered (Suc k) (Data c s) = c @ delivered k s"

text \<open>
  When the user presses Cancel on the progress notification of a download: there is a
  notification only when \<open>progressLocation\<close> is set, and it is shown by the window of the
  options or else by the host's.
\<close>

definition cancelPressedOn :: "Host \<Rightarrow> DownloadFileOptions \<Rightarrow> nat option" where
  "cancelPressedOn host options =
     (case progressLocation options of
        None \<Rightarrow> None
      | Some loc \<Rightarrow> cancelPressed (case window options of None \<Rightarrow> vscode host | Some w \<Rightarrow> w))"

text \<open>
  A download is in flight once \<open>k\<close> chunks have been delivered: the stream has not closed
  by itself, and the sink is running (a sink that could not open its file has failed,
  and ended the download, before the first chunk).
\<close>

definition inFlight :: "Readable \<Rightarrow> Uri option \<Rightarrow> filesystem \<Rightarrow> nat \<Rightarrow> bool" where
  "inFlight stream target fs k =
     (k \<le> chunk_count stream
      \<and> (case target of None \<Rightarrow> True | Some u \<Rightarrow> refused fs (fsPath u) = None))"

text \<open>The error \<open>downloadFile\<close> throws for a cause, when a file destination was given.\<close>

definition wrapped :: "S3File \<Rightarrow> Uri \<Rightarrow> error \<Rightarrow> error" where
  "wrapped file target cause =
     ToolkitError cause (''Failed to download file '' @ S3File.name file)
       \<lparr>bucket = S3File.bucket file, path = key file, destination = Some (Uri.path target)\<rparr>"

text \<open>A started download fails: the \<open>downloadFile\<close> of its callback throws.\<close>

definition attemptFails :: "Host \<Rightarrow> S3DownloadFilesManager \<Rightarrow> filesystem \<Rightarrow> S3File \<times> Uri \<Rightarrow> bool" where
  "attemptFails host this fs a =
     (case fst (downloadFile host (fst a) (Some (callbackOptions host this (snd a))) fs) of
        Inl _ \<Rightarrow> True | Inr _ \<Rightarrow> False)"

text \<open>The files whose download is in flight and will fail.\<close>

definition failing :: "Host \<Rightarrow> session \<Rightarrow> S3File list" where
  "failing host s = map fst (filter (attemptFails host (manager s) (disk s)) (inflight s))"

text \<open>
  The downloads in flight settle in a given order: each number is a position in the
  list of those still in flight.
\<close>

definition run :: "Host \<Rightarrow> nat list \<Rightarrow> session \<Rightarrow> session" where
  "run host order s = fold (settle host) order s"

text \<open>What a session reports: the count of successes, the failed files, what is still in flight.\<close>

definition summary :: "session \<Rightarrow> nat \<times> S3File list \<times> nat" where
  "summary s = (totalDownloaded (manager s), failedToDownload (manager s), length (inflight s))"

subsection \<open>Example inputs\<close>

text \<open>
  A bucket with three objects under the folder \<open>album\<close>; the store serves \<open>a.txt\<close> and
  \<open>c.txt\<close> in two chunks, and the stream of \<open>b.txt\<close> breaks after its first chunk.
\<close>

definition photos :: Bucket where
  "photos = \<lparr>Bucket.name = ''photos'', region = ''eu-west-1''\<rparr>"

definition objectA :: S3File where
  "objectA = \<lparr>S3File.bucket = photos, key = ''album/a.txt'', name = ''a.txt'', sizeBytes = 3\<rparr>"

definition objectB :: S3File where
  "objectB = \<lparr>S3File.bucket = photos, key = ''album/b.txt'', name = ''b.txt'', sizeBytes = 3\<rparr>"

definition objectC :: S3File where
  "objectC = \<lparr>S3File.bucket = photos, key = ''album/c.txt'', name = ''c.txt'', sizeBytes = 7\<rparr>"

definition store :: S3Client where
  "store = \<lparr>downloadFileStream = (\<lambda>b k.
      if k = ''album/b.txt'' then Inr (Data [1] (Error (ServiceError ''reset'')))
      else Inr (Data [1, 2] (Data [3] End)))\<rparr>"

text \<open>A window whose folder dialog returns \<open>/home/u/dl\<close> and whose user never cancels.\<close>

definition desk :: Window where
  "desk = \<lparr>cancelPressed = None, openDialog = Some [Uri_file ''/home/u/dl'']\<rparr>"

definition host0 :: Host where
  "host0 = \<lparr>vscode = desk, DefaultS3Client = (\<lambda>r. store)\<rparr>"

definition disk0 :: filesystem where
  "disk0 = \<lparr>dirs = {''/home/u/dl''}, files = Map.empty, refused = Map.empty\<rparr>"

definition album :: S3DownloadFilesManager where
  "album = new_S3DownloadFilesManager store [objectA, objectB, objectC] (Some ''album'')"

text \<open>
  The same destination with the folder \<open>album\<close> already in it, and with a destination in
  which the operating system refuses to create \<open>album\<close> for lack of permission.
\<close>

definition disk1 :: filesystem where
  "disk1 = \<lparr>dirs = {''/home/u/dl'', ''/home/u/dl/album''}, files = Map.empty,
             refused = Map.empty\<rparr>"

definition disk2 :: filesystem where
  "disk2 = \<lparr>dirs = {''/home/u/dl''}, files = Map.empty,
             refused = [''/home/u/dl/album'' \<mapsto> ''EACCES'']\<rparr>"

text \<open>A file system on which the chosen destination \<open>/home/u/dl\<close> no longer exists.\<close>

definition disk3 :: filesystem where
  "disk3 = \<lparr>dirs = {''/home/u''}, files = Map.empty, refused = Map.empty\<rparr>"

text \<open>The session that \<open>downloadAll\<close> starts for \<open>album\<close> on \<open>disk0\<close>.\<close>

definition started :: session where
  "started = \<lparr>manager = album,
        inflight = [(objectA, Uri_file ''/home/u/dl/album/a.txt''),
                    (objectB, Uri_file ''/home/u/dl/album/b.txt''),
                    (objectC, Uri_file ''/home/u/dl/album/c.txt'')],
        disk = disk0\<lparr>dirs := insert ''/home/u/dl/album'' (dirs disk0)\<rparr>\<rparr>"

text \<open>A host whose user dismisses the folder dialog.\<close>

definition dismissed :: Host where
  "dismissed = \<lparr>vscode = \<lparr>cancelPressed = None, openDialog = None\<rparr>, DefaultS3Client = (\<lambda>r. store)\<rparr>"

text \<open>
  Options for single downloads: to a file under a timeout whose token fires after the
  first chunk; to a buffer with a progress notification on which the user presses
  Cancel after the first chunk, under a timeout that never fires; and to a file with
  nothing else set.
\<close>

definition watched :: DownloadFileOptions where
  "watched = \<lparr>progressLocation = Some Notification, saveLocation = None,
              window = Some \<lparr>cancelPressed = Some 1, openDialog = None\<rparr>,
              timeout = Some \<lparr>fires = None\<rparr>, client = Some store\<rparr>"

definition timed :: DownloadFileOptions where
  "timed = \<lparr>progressLocation = None, saveLocation = Some (Uri_file ''/home/u/a.txt''),
            window = None, timeout = Some \<lparr>fires = Some (1, ''timeout'')\<rparr>, client = Some store\<rparr>"

definition plain :: DownloadFileOptions where
  "plain = \<lparr>progressLocation = None, saveLocation = Some (Uri_file ''/home/u/b.txt''),
            window = None, timeout = None, client = None\<rparr>"

section \<open>Theorems\<close>

subsection \<open>Stream sinks and destroyed streams\<close>

lemma writeChunk_contents:
  "written w \<le> length (storage w) \<Longrightarrow>
     contents (writeChunk w c) = contents w @ c \<and> written (writeChunk w c) \<le> length (storage (writeChunk w c))"
  by (auto simp: writeChunk_def contents_def Let_def)

lemma pump_received:
  "written w \<le> length (storage w) \<Longrightarrow>
     (case pump s w of
        Inl e \<Rightarrow> failure s = Some e
      | Inr w' \<Rightarrow> failure s = None \<and> contents w' = contents w @ received s)"
proof (induction s arbitrary: w)
  case (Data c s)
  from writeChunk_contents[OF Data.prems, of c]
  have a: "contents (writeChunk w c) = contents w @ c"
    and b: "written (writeChunk w c) \<le> length (storage (writeChunk w c))" by simp_all
  from Data.IH[OF b] show ?case by (simp add: a split: sum.splits)
qed simp_all

lemma streamToBuffer_eq:
  "streamToBuffer s hint = (case failure s of None \<Rightarrow> Inr (received s) | Some e \<Rightarrow> Inl e)"
proof -
  have "written (allocate hint) \<le> length (storage (allocate hint))" by (simp add: allocate_def)
  from pump_received[OF this, of s] show ?thesis
    by (auto simp: streamToBuffer_def contents_def allocate_def split: sum.splits option.splits)
qed

lemma failure_destroy: "k \<le> chunk_count s \<Longrightarrow> failure (destroy k err s) = Some err"
  by (induction k err s rule: destroy.induct) auto

lemma received_destroy: "received (destroy k err s) = delivered k s"
  by (induction k err s rule: destroy.induct) auto

lemma earliest_mem: "earliest rs = Some r \<Longrightarrow> r \<in> set rs"
  by (induction rs arbitrary: r) (auto split: option.splits if_splits)

lemma earliest_None: "(earliest rs = None) = (rs = [])"
  by (cases rs) (auto split: option.splits)

lemma earliest_le: "earliest rs = Some r \<Longrightarrow> r' \<in> set rs \<Longrightarrow> fst r \<le> fst r'"
  by (induction rs arbitrary: r) (auto simp: earliest_None split: option.splits if_splits)

subsection \<open>The download of one callback\<close>

lemma destroy_requests_callback: "destroy_requests host (Some (callbackOptions host this target)) = []"
  by (simp add: destroy_requests_def callbackOptions_def withProgress_def)

lemma downloadFile_callback:
  "downloadFile host file (Some (callbackOptions host this target)) fs =
     (case downloadFileStream (S3DownloadFilesManager.client this)
             (Bucket.name (S3File.bucket file)) (key file) of
        Inl e \<Rightarrow> (Inl (wrapped file target e), fs)
      | Inr stream \<Rightarrow>
          (case refused fs (fsPath target) of
             Some code \<Rightarrow> (Inl (wrapped file target (FilesystemError code)), fs)
           | None \<Rightarrow>
               (case failure stream of
                  None \<Rightarrow> (Inr Void, fs\<lparr>files := (files fs)(fsPath target \<mapsto> received stream)\<rparr>)
                | Some e \<Rightarrow> (Inl (wrapped file target e),
                             fs\<lparr>files := (files fs)(fsPath target \<mapsto> received stream)\<rparr>))))"
  unfolding downloadFile_def downloadS3File_def destroy_requests_callback
  by (simp add: callbackOptions_def destroyed_def streamToFile_def wrapped_def
      split: sum.splits option.splits)


lemma attemptFails_eq:
  "attemptFails host this fs (file, target) =
     (case downloadFileStream (S3DownloadFilesManager.client this)
             (Bucket.name (S3File.bucket file)) (key file) of
        Inl e \<Rightarrow> True
      | Inr stream \<Rightarrow> refused fs (fsPath target) \<noteq> None \<or> failure stream \<noteq> None)"
  by (simp add: attemptFails_def downloadFile_callback split: sum.splits option.splits)

lemma attemptFails_cong:
  "S3DownloadFilesManager.client this = S3DownloadFilesManager.client this' \<Longrightarrow>
   refused fs = refused fs' \<Longrightarrow> attemptFails host this fs a = attemptFails host this' fs' a"
  by (cases a) (simp add: attemptFails_eq split: sum.splits)

lemma refused_downloadFile_callback:
  "refused (snd (downloadFile host file (Some (callbackOptions host this target)) fs)) = refused fs"
  by (simp add: downloadFile_callback split: sum.splits option.splits)

lemma settle_inflight:
  "inflight (settle host i s) =
     (if i < length (inflight s) then take i (inflight s) @ drop (Suc i) (inflight s)
      else inflight s)"
  by (simp add: settle_def split: prod.splits sum.splits)

lemma settle_totalDownloaded:
  "totalDownloaded (manager (settle host i s)) = totalDownloaded (manager s)"
  by (simp add: settle_def split: prod.splits sum.splits)

lemma settle_client:
  "S3DownloadFilesManager.client (manager (settle host i s)) = S3DownloadFilesManager.client (manager s)"
  by (simp add: settle_def split: prod.splits sum.splits)

lemma settle_disk:
  "disk (settle host i s) =
     (if i < length (inflight s)
      then snd (downloadFile host (fst (inflight s ! i))
                 (Some (callbackOptions host (manager s) (snd (inflight s ! i)))) (disk s))
      else disk s)"
  by (simp add: settle_def split: prod.splits sum.splits)

lemma settle_refused: "refused (disk (settle host i s)) = refused (disk s)"
  by (simp add: settle_disk refused_downloadFile_callback)

lemma settle_failedToDownload:
  "failedToDownload (manager (settle host i s)) =
     failedToDownload (manager s) @
       (if i < length (inflight s) \<and> attemptFails host (manager s) (disk s) (inflight s ! i)
        then [fst (inflight s ! i)] else [])"
  by (auto simp: settle_def attemptFails_def split: prod.splits sum.splits)

lemma attemptFails_settle:
  "attemptFails host (manager (settle host i s)) (disk (settle host i s)) a =
     attemptFails host (manager s) (disk s) a"
  by (rule attemptFails_cong) (simp_all add: settle_client settle_refused)

subsection \<open>Accounting of a folder download\<close>

lemma step_accounting:
  assumes "step host s t"
  shows "mset (failedToDownload (manager t)) + mset (failing host t) =
         mset (failedToDownload (manager s)) + mset (failing host s)
       \<and> totalDownloaded (manager t) = totalDownloaded (manager s)
       \<and> Suc (length (inflight t)) = length (inflight s)"
  using assms
proof cases
  case (settles i)
  let ?xs = "inflight s"
  have split: "?xs = take i ?xs @ ?xs ! i # drop (Suc i) ?xs"
    using settles by (simp add: id_take_nth_drop)
  have "mset (failing host s) =
          mset (map fst (filter (attemptFails host (manager s) (disk s)) (take i ?xs @ drop (Suc i) ?xs)))
          + (if attemptFails host (manager s) (disk s) (?xs ! i) then {#fst (?xs ! i)#} else {#})"
    unfolding failing_def by (subst split) simp
  moreover have "failing host t =
          map fst (filter (attemptFails host (manager s) (disk s)) (take i ?xs @ drop (Suc i) ?xs))"
    using settles by (simp add: failing_def attemptFails_settle[abs_def] settle_inflight)
  moreover have "length (take i ?xs @ drop (Suc i) ?xs) + 1 = length ?xs"
    using settles by simp
  ultimately show ?thesis
    using settles by (simp add: settle_failedToDownload settle_totalDownloaded settle_inflight)
qed

lemma steps_accounting:
  assumes "(step host)\<^sup>*\<^sup>* s t"
  shows "mset (failedToDownload (manager t)) + mset (failing host t) =
         mset (failedToDownload (manager s)) + mset (failing host s)
       \<and> totalDownloaded (manager t) = totalDownloaded (manager s)
       \<and> length (inflight t) \<le> length (inflight s)"
  using assms
proof (induction rule: rtranclp_induct)
  case base
  show ?case by simp
next
  case (step t u)
  from step_accounting[OF step.hyps(2)] step.IH show ?case by simp
qed

lemma example_paths:
  "path_join ''/home/u/dl'' ''album'' = ''/home/u/dl/album''"
  "path_join ''/home/u/dl/album'' ''a.txt'' = ''/home/u/dl/album/a.txt''"
  "path_join ''/home/u/dl/album'' ''b.txt'' = ''/home/u/dl/album/b.txt''"
  "path_join ''/home/u/dl/album'' ''c.txt'' = ''/home/u/dl/album/c.txt''"
  "path_join ''/home/u/dl'' ''a.txt'' = ''/home/u/dl/a.txt''"
  "path_join ''/home/u/dl'' ''b.txt'' = ''/home/u/dl/b.txt''"
  "path_join ''/home/u/dl'' ''c.txt'' = ''/home/u/dl/c.txt''"
  "entry ''/home/u/dl/album'' = ''/home/u/dl/album''"
  "dirname ''/home/u/dl/album'' = ''/home/u/dl''"
  by code_simp+

lemma prompt_host0: "promptForSaveFolderLocation (vscode host0) = Some (Uri_file ''/home/u/dl'')"
  by (simp add: promptForSaveFolderLocation_def host0_def desk_def)

lemma album_fields:
  "folderName album = Some ''album''" "fileList album = [objectA, objectB, objectC]"
  by (simp_all add: album_def new_S3DownloadFilesManager_def)

lemma resolveSavePath_album:
  "resolveSavePath album (Uri_file ''/home/u/dl'') disk0 =
     Inr (''/home/u/dl/album'', disk0\<lparr>dirs := insert ''/home/u/dl/album'' (dirs disk0)\<rparr>)"
proof -
  have e: "\<not> existsSync disk0 ''/home/u/dl/album''"
    by (simp add: existsSync_def example_paths isDirectory_def disk0_def)
  have m: "mkdirSync disk0 ''/home/u/dl/album'' =
             Inr (disk0\<lparr>dirs := insert ''/home/u/dl/album'' (dirs disk0)\<rparr>)"
    by (simp add: mkdirSync_def example_paths isDirectory_def disk0_def)
  show ?thesis
    by (simp add: resolveSavePath_def album_fields Uri_file_def example_paths e m Let_def)
qed

lemma downloadAll_album: "downloadAll host0 album disk0 =
   Inr \<lparr>manager = album,
        inflight = [(objectA, Uri_file ''/home/u/dl/album/a.txt''),
                    (objectB, Uri_file ''/home/u/dl/album/b.txt''),
                    (objectC, Uri_file ''/home/u/dl/album/c.txt'')],
        disk = disk0\<lparr>dirs := insert ''/home/u/dl/album'' (dirs disk0)\<rparr>\<rparr>"
  by (simp add: downloadAll_def prompt_host0 resolveSavePath_album album_fields example_paths
      objectA_def objectB_def objectC_def)

lemma fails_store:
  "S3DownloadFilesManager.client this = store \<Longrightarrow> refused fs = Map.empty \<Longrightarrow>
     attemptFails host this fs (file, target) = (key file = ''album/b.txt'')"
  by (simp add: attemptFails_eq store_def)

text \<open>
  C1: for the batch in which \<open>a.txt\<close> and \<open>c.txt\<close> succeed and \<open>b.txt\<close> fails, once all
  three downloads have settled (in the order they were started, or in the reverse) the
  failed files are exactly \<open>b.txt\<close>, nothing is in flight, and the count of
  successes \<open>totalDownloaded\<close> is 0: no statement of the source assigns to it.
\<close>

theorem batch_success_count_stays_zero:
  "map_sum id (\<lambda>s. summary (run host0 [0, 0, 0] s)) (downloadAll host0 album disk0)
     = Inr (0, [objectB], 0)
   \<and> map_sum id (\<lambda>s. summary (run host0 [2, 1, 0] s)) (downloadAll host0 album disk0)
     = Inr (0, [objectB], 0)"
  unfolding downloadAll_album
  by (simp add: run_def summary_def settle_totalDownloaded settle_failedToDownload settle_inflight
      settle_client settle_refused fails_store album_def new_S3DownloadFilesManager_def disk0_def
      objectA_def objectB_def objectC_def)

subsection \<open>Where a folder download writes\<close>

lemma resolveSavePath_unnamed:
  "folderName this = None \<or> folderName this = Some [] \<Longrightarrow>
     resolveSavePath this chosen fs = Inr (fsPath chosen, fs)"
  by (auto simp: resolveSavePath_def)

lemma mkdirSync_creates:
  "mkdirSync fs p = Inr fs' \<Longrightarrow> fs' = fs\<lparr>dirs := insert (entry p) (dirs fs)\<rparr>"
  by (auto simp: mkdirSync_def split: if_splits option.splits)

lemma mkdirSync_error: "mkdirSync fs p = Inl e \<Longrightarrow> \<exists>code. e = FilesystemError code"
  by (auto simp: mkdirSync_def split: if_splits option.splits)

lemma resolveSavePath_creates:
  "folderName this = Some fname \<Longrightarrow> fname \<noteq> [] \<Longrightarrow>
   \<not> existsSync fs (path_join (fsPath chosen) fname) \<Longrightarrow>
   mkdirSync fs (path_join (fsPath chosen) fname) = Inr fs' \<Longrightarrow>
     resolveSavePath this chosen fs = Inr (path_join (fsPath chosen) fname, fs')"
  by (simp add: resolveSavePath_def Let_def)

lemma resolveSavePath_existing:
  "folderName this = Some fname \<Longrightarrow> fname \<noteq> [] \<Longrightarrow>
   existsSync fs (path_join (fsPath chosen) fname) \<Longrightarrow>
     resolveSavePath this chosen fs = Inr (fsPath chosen, fs)"
  by (simp add: resolveSavePath_def Let_def)

lemma resolveSavePath_fails:
  "(resolveSavePath this chosen fs = Inl e) =
     (\<exists>fname. folderName this = Some fname \<and> fname \<noteq> []
        \<and> \<not> existsSync fs (path_join (fsPath chosen) fname)
        \<and> mkdirSync fs (path_join (fsPath chosen) fname) = Inl e)"
  by (auto simp: resolveSavePath_def Let_def split: option.splits sum.splits)

lemma downloadAll_album1:
  "downloadAll host0 album disk1 =
     Inr \<lparr>manager = album,
          inflight = [(objectA, Uri_file ''/home/u/dl/a.txt''),
                      (objectB, Uri_file ''/home/u/dl/b.txt''),
                      (objectC, Uri_file ''/home/u/dl/c.txt'')],
          disk = disk1\<rparr>"
proof -
  have e: "existsSync disk1 (path_join (fsPath (Uri_file ''/home/u/dl'')) ''album'')"
    by (simp add: existsSync_def example_paths isDirectory_def disk1_def Uri_file_def)
  have r: "resolveSavePath album (Uri_file ''/home/u/dl'') disk1 = Inr (''/home/u/dl'', disk1)"
    using resolveSavePath_existing[OF album_fields(1) _ e] by (simp add: Uri_file_def)
  show ?thesis
    by (simp add: downloadAll_def prompt_host0 r album_fields example_paths
        objectA_def objectB_def objectC_def)
qed

text \<open>
  C3: with the display name \<open>album\<close> and the subdirectory \<open>/home/u/dl/album\<close> already
  present, the creation is skipped and every object is downloaded to the destination
  root, \<open>/home/u/dl/a.txt\<close> and so on, not into the subdirectory: \<open>savePath\<close> is set to
  the subdirectory only in the branch that creates it. (Without a display name the
  objects go to the root, and a subdirectory that is created receives them:
  \<open>resolveSavePath_unnamed\<close>, \<open>resolveSavePath_creates\<close>.)
\<close>

theorem existing_folder_is_bypassed:
  "existsSync disk1 ''/home/u/dl/album''
   \<and> map_sum id (\<lambda>s. map (\<lambda>a. fsPath (snd a)) (inflight s)) (downloadAll host0 album disk1)
       = Inr [''/home/u/dl/a.txt'', ''/home/u/dl/b.txt'', ''/home/u/dl/c.txt'']
   \<and> map_sum id (\<lambda>s. files (disk (settle host0 0 s)) ''/home/u/dl/a.txt'') (downloadAll host0 album disk1)
       = Inr (Some [1, 2, 3])
   \<and> map_sum id (\<lambda>s. files (disk (settle host0 0 s)) ''/home/u/dl/album/a.txt'') (downloadAll host0 album disk1)
       = Inr None"
  unfolding downloadAll_album1
  by (simp add: settle_disk downloadFile_callback existsSync_def example_paths isDirectory_def
      disk1_def Uri_file_def album_def new_S3DownloadFilesManager_def store_def objectA_def)

subsection \<open>Failure policy of a folder download\<close>

lemma settle_all: "\<exists>u. (step host)\<^sup>*\<^sup>* t u \<and> inflight u = []"
proof (induction "length (inflight t)" arbitrary: t)
  case 0
  then show ?case by auto
next
  case (Suc n)
  have lt: "0 < length (inflight t)" using Suc.hyps(2) by (metis zero_less_Suc)
  have st: "step host t (settle host 0 t)" using lt by (rule step.intros)
  have "n = length (inflight (settle host 0 t))"
    using Suc.hyps(2)[symmetric] lt by (simp add: settle_inflight)
  from Suc.hyps(1)[OF this] obtain u where "(step host)\<^sup>*\<^sup>* (settle host 0 t) u" "inflight u = []"
    by blast
  with st show ?case by (meson converse_rtranclp_into_rtranclp)
qed

lemma downloadAll_fails:
  "(downloadAll host this fs = Inl e) =
     (promptForSaveFolderLocation (vscode host) = None \<and> e = CancellationError ''user''
      \<or> (\<exists>chosen fname. promptForSaveFolderLocation (vscode host) = Some chosen
            \<and> folderName this = Some fname \<and> fname \<noteq> []
            \<and> \<not> existsSync fs (path_join (fsPath chosen) fname)
            \<and> mkdirSync fs (path_join (fsPath chosen) fname) = Inl e))"
proof (cases "promptForSaveFolderLocation (vscode host)")
  case None
  then show ?thesis by (auto simp: downloadAll_def)
next
  case (Some chosen)
  have "(downloadAll host this fs = Inl e) = (resolveSavePath this chosen fs = Inl e)"
    by (simp add: downloadAll_def Some split: sum.splits prod.splits)
  then show ?thesis by (simp add: Some resolveSavePath_fails)
qed

lemma downloadAll_starts_all:
  "downloadAll host this fs = Inr s \<Longrightarrow> map fst (inflight s) = fileList this \<and> manager s = this"
  by (auto simp: downloadAll_def comp_def split: option.splits sum.splits prod.splits)


lemma downloadAll_started: "downloadAll host0 album disk0 = Inr started"
  unfolding started_def by (rule downloadAll_album)

lemma downloadAll_dismissed: "promptForSaveFolderLocation (vscode dismissed) = None"
  by (simp add: promptForSaveFolderLocation_def dismissed_def)

lemma started_b_fails:
  "1 < length (inflight started)"
  "attemptFails host0 (manager started) (disk started) (inflight started ! 1)"
  "failedToDownload (manager started) = []"
  "fst (inflight started ! 1) = objectB"
  "map fst (take 1 (inflight started) @ drop (Suc 1) (inflight started)) = [objectA, objectC]"
  by (simp_all add: started_def fails_store album_def new_S3DownloadFilesManager_def disk0_def
      objectB_def)

text \<open>
  What the accounting of a folder download does guarantee, in every order of settling:
  the failed files are exactly those whose download fails, and the count of successes
  plus the number of failed files never exceeds the number of files. The count itself
  stays at its initial value.
\<close>

lemma settled_accounting:
  assumes "downloadAll host this fs = Inr s" and "(step host)\<^sup>*\<^sup>* s t"
  shows "totalDownloaded (manager t) = totalDownloaded this"
    and "mset (failedToDownload (manager t)) + mset (failing host t)
           = mset (failedToDownload this) + mset (failing host s)"
    and "totalDownloaded (manager t) + length (failedToDownload (manager t))
           \<le> totalDownloaded this + length (failedToDownload this) + length (fileList this)"
    and "inflight t = [] \<Longrightarrow>
           mset (failedToDownload (manager t)) = mset (failedToDownload this) + mset (failing host s)"
proof -
  from downloadAll_starts_all[OF assms(1)]
  have m: "manager s = this" and l: "length (inflight s) = length (fileList this)"
    by (auto dest: arg_cong[where f = length])
  from steps_accounting[OF assms(2)]
  have a: "mset (failedToDownload (manager t)) + mset (failing host t) =
           mset (failedToDownload (manager s)) + mset (failing host s)"
    and b: "totalDownloaded (manager t) = totalDownloaded (manager s)" by simp_all
  show "totalDownloaded (manager t) = totalDownloaded this" using b m by simp
  show c: "mset (failedToDownload (manager t)) + mset (failing host t)
           = mset (failedToDownload this) + mset (failing host s)" using a m by simp
  have "length (failing host s) \<le> length (inflight s)" by (simp add: failing_def)
  moreover from c have "length (failedToDownload (manager t)) + length (failing host t)
      = length (failedToDownload this) + length (failing host s)"
    by (metis size_mset size_union)
  ultimately show "totalDownloaded (manager t) + length (failedToDownload (manager t))
           \<le> totalDownloaded this + length (failedToDownload this) + length (fileList this)"
    using b m l by simp
  show "inflight t = [] \<Longrightarrow>
           mset (failedToDownload (manager t)) = mset (failedToDownload this) + mset (failing host s)"
    using c by (simp add: failing_def)
qed

text \<open>
  C4, as the claim states it, fails: with a destination chosen, \<open>downloadAll\<close> fails with
  the file system's error when the folder cannot be created (\<open>mkdirSync\<close> throws and
  nothing catches it).
\<close>

theorem downloadAll_fails_when_folder_is_refused:
  "promptForSaveFolderLocation (vscode host0) = Some (Uri_file ''/home/u/dl'')
   \<and> downloadAll host0 album disk2 = Inl (FilesystemError ''EACCES'')"
proof -
  have "resolveSavePath album (Uri_file ''/home/u/dl'') disk2 = Inl (FilesystemError ''EACCES'')"
    unfolding resolveSavePath_fails
    by (simp add: album_fields existsSync_def mkdirSync_def example_paths isDirectory_def
        disk2_def Uri_file_def)
  then show ?thesis by (simp add: downloadAll_def prompt_host0)
qed

text \<open>
  C4, amended: \<open>downloadAll\<close> itself fails exactly when no destination is chosen, with
  \<open>CancellationError user\<close>, or when the folder named after the display name does not
  exist and \<open>mkdirSync\<close> throws on creating it, with the error \<open>mkdirSync\<close> throws
  (\<open>EACCES\<close>, \<open>ENOENT\<close> for a destination that is gone, ...). Otherwise it starts a
  download for every file. The failure of one download is caught: the file is appended
  to \<open>failedToDownload\<close>, the other downloads stay in flight with their outcomes
  unchanged, and from every session all downloads in flight can settle.
\<close>

theorem downloadAll_failure_policy:
  "(downloadAll host this fs = Inl e) =
     (promptForSaveFolderLocation (vscode host) = None \<and> e = CancellationError ''user''
      \<or> (\<exists>chosen fname. promptForSaveFolderLocation (vscode host) = Some chosen
            \<and> folderName this = Some fname \<and> fname \<noteq> []
            \<and> \<not> existsSync fs (path_join (fsPath chosen) fname)
            \<and> mkdirSync fs (path_join (fsPath chosen) fname) = Inl e))
   \<and> (downloadAll host this fs = Inr s0 \<longrightarrow> map fst (inflight s0) = fileList this)
   \<and> (i < length (inflight s) \<and> attemptFails host (manager s) (disk s) (inflight s ! i) \<longrightarrow>
        failedToDownload (manager (settle host i s)) = failedToDownload (manager s) @ [fst (inflight s ! i)]
        \<and> inflight (settle host i s) = take i (inflight s) @ drop (Suc i) (inflight s)
        \<and> attemptFails host (manager (settle host i s)) (disk (settle host i s)) a
            = attemptFails host (manager s) (disk s) a)
   \<and> (\<exists>u. (step host)\<^sup>*\<^sup>* s u \<and> inflight u = [])"
proof (intro conjI impI)
  show "(downloadAll host this fs = Inl e) =
     (promptForSaveFolderLocation (vscode host) = None \<and> e = CancellationError ''user''
      \<or> (\<exists>chosen fname. promptForSaveFolderLocation (vscode host) = Some chosen
            \<and> folderName this = Some fname \<and> fname \<noteq> []
            \<and> \<not> existsSync fs (path_join (fsPath chosen) fname)
            \<and> mkdirSync fs (path_join (fsPath chosen) fname) = Inl e))"
    by (rule downloadAll_fails)
next
  assume "downloadAll host this fs = Inr s0"
  then show "map fst (inflight s0) = fileList this" by (simp add: downloadAll_starts_all)
next
  assume a: "i < length (inflight s) \<and> attemptFails host (manager s) (disk s) (inflight s ! i)"
  then show "failedToDownload (manager (settle host i s)) =
      failedToDownload (manager s) @ [fst (inflight s ! i)]"
    by (simp add: settle_failedToDownload)
  from a show "inflight (settle host i s) = take i (inflight s) @ drop (Suc i) (inflight s)"
    by (simp add: settle_inflight)
  show "attemptFails host (manager (settle host i s)) (disk (settle host i s)) a
            = attemptFails host (manager s) (disk s) a"
    by (rule attemptFails_settle)
next
  show "\<exists>u. (step host)\<^sup>*\<^sup>* s u \<and> inflight u = []" by (rule settle_all)
qed

theorem downloadAll_failure_policy_witness:
  "promptForSaveFolderLocation (vscode dismissed) = None
   \<and> downloadAll dismissed album disk0 = Inl (CancellationError ''user'')
   \<and> downloadAll host0 album disk0 = Inr started
   \<and> map fst (inflight started) = fileList album
   \<and> 1 < length (inflight started)
   \<and> attemptFails host0 (manager started) (disk started) (inflight started ! 1)
   \<and> failedToDownload (manager (settle host0 1 started)) = [objectB]
   \<and> map fst (inflight (settle host0 1 started)) = [objectA, objectC]
   \<and> mkdirSync disk3 ''/home/u/dl/album'' = Inl (FilesystemError ''ENOENT'')
   \<and> downloadAll host0 album disk3 = Inl (FilesystemError ''ENOENT'')"
proof -
  have x: "\<not> existsSync disk3 (path_join (fsPath (Uri_file ''/home/u/dl'')) ''album'')"
    by (simp add: existsSync_def example_paths isDirectory_def disk3_def Uri_file_def)
  have k: "mkdirSync disk3 ''/home/u/dl/album'' = Inl (FilesystemError ''ENOENT'')"
    by (simp add: mkdirSync_def example_paths isDirectory_def disk3_def)
  have n: "downloadAll host0 album disk3 = Inl (FilesystemError ''ENOENT'')"
    using downloadAll_failure_policy[of host0 album disk3 "FilesystemError ''ENOENT''"]
      prompt_host0 album_fields(1) x k
    by (simp add: Uri_file_def example_paths)
  have c: "downloadAll dismissed album disk0 = Inl (CancellationError ''user'')"
    using downloadAll_failure_policy[of dismissed album disk0 "CancellationError ''user''"]
      downloadAll_dismissed by simp
  have m: "map fst (inflight started) = fileList album"
    using downloadAll_failure_policy[of host0 album disk0 _ started] downloadAll_started by simp
  have f: "failedToDownload (manager (settle host0 1 started)) = [objectB]
     \<and> map fst (inflight (settle host0 1 started)) = [objectA, objectC]"
    using downloadAll_failure_policy[of host0 album disk0 _ started 1 started] started_b_fails
    by simp
  from c m f started_b_fails(1,2) downloadAll_started downloadAll_dismissed k n
  show ?thesis by blast
qed

subsection \<open>Single-file download\<close>

lemma destroy_requests_token:
  assumes "timeout options = Some t"
  shows "destroy_requests host (Some options) =
           (case fires t of None \<Rightarrow> [] | Some (k, agent) \<Rightarrow> [(k, CancellationError agent)])
           @ (case cancelPressedOn host options of
                None \<Rightarrow> [] | Some k \<Rightarrow> [(k, CancellationError ''user'')])"
  using assms
  by (simp add: destroy_requests_def withProgress_def cancelPressedOn_def split: option.splits)

lemma first_cancellation:
  assumes token: "timeout options = Some t"
    and fired:
      "(fires t = Some (k, agent)
          \<and> (case cancelPressedOn host options of None \<Rightarrow> True | Some j \<Rightarrow> k \<le> j))
       \<or> (cancelPressedOn host options = Some k \<and> agent = ''user''
          \<and> (case fires t of None \<Rightarrow> True | Some (j, a) \<Rightarrow> k < j))"
  shows "earliest (destroy_requests host (Some options)) = Some (k, CancellationError agent)"
  using fired unfolding destroy_requests_token[OF token]
  by (auto split: option.splits)

lemma downloadS3File_sink:
  assumes "downloadFileStream s3 (Bucket.name (S3File.bucket file)) (key file) = Inr stream"
  shows "downloadS3File host s3 file options fs =
     (case Option.bind options saveLocation of
        None \<Rightarrow>
          (case failure (destroyed (destroy_requests host options) stream) of
             None \<Rightarrow> (Inr (Buffer (received (destroyed (destroy_requests host options) stream))), fs)
           | Some e \<Rightarrow> (Inl e, fs))
      | Some target \<Rightarrow>
          (case refused fs (fsPath target) of
             Some code \<Rightarrow> (Inl (FilesystemError code), fs)
           | None \<Rightarrow>
               (case failure (destroyed (destroy_requests host options) stream) of
                  None \<Rightarrow> Inr Void | Some e \<Rightarrow> Inl e,
                fs\<lparr>files := (files fs)(fsPath target \<mapsto>
                        received (destroyed (destroy_requests host options) stream))\<rparr>)))"
  by (simp add: downloadS3File_def assms streamToBuffer_eq streamToFile_def Let_def
      split: option.splits)

text \<open>
  A sink that cannot open its file fails the download with the file system's error
  before any chunk, whatever is cancelled later: from then on no download is in flight.
\<close>

lemma sink_failure_ends_download:
  assumes "downloadFileStream s3 (Bucket.name (S3File.bucket file)) (key file) = Inr stream"
    and "saveLocation options = Some target" and "refused fs (fsPath target) = Some code"
  shows "downloadS3File host s3 file (Some options) fs = (Inl (FilesystemError code), fs)"
  by (simp add: downloadS3File_sink[OF assms(1)] assms(2,3))

lemma destroy_late: "chunk_count s < k \<Longrightarrow> destroy k err s = s"
  by (induction k err s rule: destroy.induct) auto

lemma store_a: "downloadFileStream store (Bucket.name (S3File.bucket objectA)) (key objectA)
   = Inr (Data [1, 2] (Data [3] End))"
  by (simp add: store_def objectA_def)

lemma store_b: "downloadFileStream store (Bucket.name (S3File.bucket objectB)) (key objectB)
   = Inr (Data [1] (Error (ServiceError ''reset'')))"
  by (simp add: store_def objectB_def)

lemma plain_b:
  "fst (downloadS3File host0 store objectB (Some plain) disk0) = Inl (ServiceError ''reset'')"
  by (simp add: downloadS3File_sink[OF store_b] plain_def destroy_requests_def destroyed_def
      disk0_def Uri_file_def)

lemma store_c: "downloadFileStream store (Bucket.name (S3File.bucket objectC)) (key objectC)
   = Inr (Data [1, 2] (Data [3] End))"
  by (simp add: store_def objectC_def)

lemma downloadFile_eq:
  "downloadFile host file options fs =
     (case downloadS3File host
             (case Option.bind options DownloadFileOptions.client of
                Some c \<Rightarrow> c | None \<Rightarrow> DefaultS3Client host (region (S3File.bucket file)))
             file options fs of
        (Inl cause, fs') \<Rightarrow>
          (Inl (ToolkitError cause (''Failed to download file '' @ S3File.name file)
                 \<lparr>bucket = S3File.bucket file, path = key file,
                  destination = (case Option.bind options saveLocation of
                                   None \<Rightarrow> None | Some target \<Rightarrow> Some (Uri.path target))\<rparr>), fs')
      | (Inr r, fs') \<Rightarrow> (Inr r, fs'))"
  by (simp add: downloadFile_def Let_def map_option_case split: prod.splits sum.splits)

text \<open>
  C5: a download with a cancellation token supplied (\<open>timeout options = Some t\<close>) whose
  stream has opened. Cancellation fires when the token fires, on behalf of its agent,
  or when the user presses Cancel on the progress notification, on behalf of \<open>user\<close>.
  If the first of these fires while the download is in flight, after \<open>k\<close> chunks, then
  the stream is destroyed at that point with the \<open>CancellationError\<close> of that agent, so
  that the sink receives the first \<open>k\<close> chunks only, and the operation fails with that
  error, never with a result; a buffer download leaves the file system alone, a file
  download leaves the bytes of the first \<open>k\<close> chunks in its file.
\<close>

theorem cancellation_destroys_stream_and_fails:
  assumes opened: "downloadFileStream s3 (Bucket.name (S3File.bucket file)) (key file) = Inr stream"
    and token: "timeout options = Some t"
    and fired:
      "(fires t = Some (k, agent)
          \<and> (case cancelPressedOn host options of None \<Rightarrow> True | Some j \<Rightarrow> k \<le> j))
       \<or> (cancelPressedOn host options = Some k \<and> agent = ''user''
          \<and> (case fires t of None \<Rightarrow> True | Some (j, a) \<Rightarrow> k < j))"
    and running: "inFlight stream (saveLocation options) fs k"
  shows "destroyed (destroy_requests host (Some options)) stream
           = destroy k (CancellationError agent) stream
       \<and> fst (downloadS3File host s3 file (Some options) fs) = Inl (CancellationError agent)
       \<and> (case saveLocation options of
             None \<Rightarrow> snd (downloadS3File host s3 file (Some options) fs) = fs
           | Some target \<Rightarrow>
               files (snd (downloadS3File host s3 file (Some options) fs)) (fsPath target)
                 = Some (delivered k stream))"
proof -
  have d: "destroyed (destroy_requests host (Some options)) stream
             = destroy k (CancellationError agent) stream"
    by (simp add: destroyed_def first_cancellation[OF token fired])
  have f: "failure (destroy k (CancellationError agent) stream) = Some (CancellationError agent)"
    using running by (simp add: inFlight_def failure_destroy)
  show ?thesis
  proof (cases "saveLocation options")
    case None
    then show ?thesis by (simp add: downloadS3File_sink[OF opened] d f)
  next
    case (Some target)
    with running have "refused fs (fsPath target) = None" by (simp add: inFlight_def)
    with Some show ?thesis
      by (simp add: downloadS3File_sink[OF opened] d f received_destroy)
  qed
qed

theorem cancellation_destroys_stream_and_fails_witness:
  "downloadFileStream store (Bucket.name (S3File.bucket objectA)) (key objectA)
     = Inr (Data [1, 2] (Data [3] End))
   \<and> timeout timed = Some \<lparr>fires = Some (1, ''timeout'')\<rparr>
   \<and> cancelPressedOn host0 timed = None
   \<and> inFlight (Data [1, 2] (Data [3] End)) (saveLocation timed) disk0 1
   \<and> fst (downloadS3File host0 store objectA (Some timed) disk0) = Inl (CancellationError ''timeout'')
   \<and> files (snd (downloadS3File host0 store objectA (Some timed) disk0)) ''/home/u/a.txt''
       = Some [1, 2]
   \<and> timeout watched = Some \<lparr>fires = None\<rparr>
   \<and> cancelPressedOn host0 watched = Some 1
   \<and> inFlight (Data [1, 2] (Data [3] End)) (saveLocation watched) disk0 1
   \<and> downloadS3File host0 store objectA (Some watched) disk0
       = (Inl (CancellationError ''user''), disk0)"
proof -
  have d: "delivered 1 (Data [1, 2] (Data [3] End)) = [1, 2]" by (simp add: numeral_eq_Suc)
  have t1: "timeout timed = Some \<lparr>fires = Some (1, ''timeout'')\<rparr>" by (simp add: timed_def)
  have p1: "cancelPressedOn host0 timed = None" by (simp add: cancelPressedOn_def timed_def)
  have s1: "saveLocation timed = Some (Uri_file ''/home/u/a.txt'')" by (simp add: timed_def)
  have i1: "inFlight (Data [1, 2] (Data [3] End)) (saveLocation timed) disk0 1"
    by (simp add: inFlight_def s1 disk0_def Uri_file_def)
  have f1: "(fires \<lparr>fires = Some (1, ''timeout'')\<rparr> = Some (1, ''timeout'')
              \<and> (case cancelPressedOn host0 timed of None \<Rightarrow> True | Some j \<Rightarrow> 1 \<le> j))
            \<or> (cancelPressedOn host0 timed = Some 1 \<and> ''timeout'' = ''user''
              \<and> (case fires \<lparr>fires = Some (1, ''timeout'')\<rparr> of
                    None \<Rightarrow> True | Some (j, a) \<Rightarrow> 1 < j))"
    by (simp add: p1)
  from cancellation_destroys_stream_and_fails[OF store_a t1 f1 i1]
  have r1: "fst (downloadS3File host0 store objectA (Some timed) disk0)
              = Inl (CancellationError ''timeout'')
    \<and> files (snd (downloadS3File host0 store objectA (Some timed) disk0)) ''/home/u/a.txt''
       = Some [1, 2]"
    by (simp add: s1 d Uri_file_def)
  have t2: "timeout watched = Some \<lparr>fires = None\<rparr>" by (simp add: watched_def)
  have p2: "cancelPressedOn host0 watched = Some 1" by (simp add: cancelPressedOn_def watched_def)
  have s2: "saveLocation watched = None" by (simp add: watched_def)
  have i2: "inFlight (Data [1, 2] (Data [3] End)) (saveLocation watched) disk0 1"
    by (simp add: inFlight_def s2)
  have f2: "(fires \<lparr>fires = None\<rparr> = Some (1, ''user'')
              \<and> (case cancelPressedOn host0 watched of None \<Rightarrow> True | Some j \<Rightarrow> 1 \<le> j))
            \<or> (cancelPressedOn host0 watched = Some 1 \<and> ''user'' = ''user''
              \<and> (case fires \<lparr>fires = None\<rparr> of None \<Rightarrow> True | Some (j, a) \<Rightarrow> 1 < j))"
    by (simp add: p2)
  from cancellation_destroys_stream_and_fails[OF store_a t2 f2 i2]
  have r2: "downloadS3File host0 store objectA (Some watched) disk0
              = (Inl (CancellationError ''user''), disk0)"
    by (simp add: s2 prod_eq_iff)
  from store_a t1 p1 i1 r1 t2 p2 i2 r2 show ?thesis by blast
qed

text \<open>
  C6: whenever the download of one file fails with a cause, \<open>downloadFile\<close> fails with
  the \<open>ToolkitError\<close> that chains the cause and carries, as details, the file's bucket,
  its key and, when a save location was given, that location's path.
\<close>

theorem downloadFile_wraps_cause:
  assumes "fst (downloadS3File host
             (case Option.bind options DownloadFileOptions.client of
                Some c \<Rightarrow> c | None \<Rightarrow> DefaultS3Client host (region (S3File.bucket file)))
             file options fs) = Inl cause"
  shows "fst (downloadFile host file options fs) =
           Inl (ToolkitError cause (''Failed to download file '' @ S3File.name file)
                 \<lparr>bucket = S3File.bucket file, path = key file,
                  destination = (case Option.bind options saveLocation of
                                   None \<Rightarrow> None | Some target \<Rightarrow> Some (Uri.path target))\<rparr>)"
  using assms by (auto simp: downloadFile_eq split: prod.splits sum.splits)

theorem downloadFile_wraps_cause_witness:
  "fst (downloadS3File host0 (DefaultS3Client host0 (region (S3File.bucket objectB))) objectB
         (Some plain) disk0) = Inl (ServiceError ''reset'')
   \<and> fst (downloadFile host0 objectB (Some plain) disk0) =
        Inl (ToolkitError (ServiceError ''reset'') ''Failed to download file b.txt''
              \<lparr>bucket = photos, path = ''album/b.txt'', destination = Some ''/home/u/b.txt''\<rparr>)"
proof -
  have c: "(case Option.bind (Some plain) DownloadFileOptions.client of
              Some c \<Rightarrow> c | None \<Rightarrow> DefaultS3Client host0 (region (S3File.bucket objectB))) = store"
    by (simp add: plain_def host0_def)
  have d: "DefaultS3Client host0 (region (S3File.bucket objectB)) = store" by (simp add: host0_def)
  have p: "fst (downloadS3File host0
             (case Option.bind (Some plain) DownloadFileOptions.client of
                Some c \<Rightarrow> c | None \<Rightarrow> DefaultS3Client host0 (region (S3File.bucket objectB)))
             objectB (Some plain) disk0) = Inl (ServiceError ''reset'')"
    unfolding c by (rule plain_b)
  from downloadFile_wraps_cause[OF p]
  have "fst (downloadFile host0 objectB (Some plain) disk0) =
        Inl (ToolkitError (ServiceError ''reset'') ''Failed to download file b.txt''
              \<lparr>bucket = photos, path = ''album/b.txt'', destination = Some ''/home/u/b.txt''\<rparr>)"
    by (simp add: plain_def objectB_def Uri_file_def)
  with plain_b d show ?thesis by simp
qed

text \<open>
  C8: in buffer mode (no save location), for a stream of the object store that ends
  normally and is not destroyed in flight, the download yields the buffer of exactly
  the bytes of the stream and leaves the file system alone, whatever \<open>sizeBytes\<close> says.
\<close>

theorem buffer_download_returns_stream_bytes:
  assumes opened: "downloadFileStream s3 (Bucket.name (S3File.bucket file)) (key file) = Inr stream"
    and buffer: "Option.bind options saveLocation = None"
    and complete: "failure stream = None"
    and undisturbed: "case earliest (destroy_requests host options) of
                        None \<Rightarrow> True | Some (k, err) \<Rightarrow> chunk_count stream < k"
  shows "downloadS3File host s3 (file\<lparr>sizeBytes := sizeHint\<rparr>) options fs
           = (Inr (Buffer (received stream)), fs)"
proof -
  have d: "destroyed (destroy_requests host options) stream = stream"
    using undisturbed by (auto simp: destroyed_def destroy_late split: option.splits)
  have o: "downloadFileStream s3 (Bucket.name (S3File.bucket (file\<lparr>sizeBytes := sizeHint\<rparr>)))
             (key (file\<lparr>sizeBytes := sizeHint\<rparr>)) = Inr stream"
    using opened by simp
  show ?thesis by (simp add: downloadS3File_sink[OF o] buffer d complete)
qed

theorem buffer_download_returns_stream_bytes_witness:
  "downloadFileStream store (Bucket.name (S3File.bucket objectC)) (key objectC)
     = Inr (Data [1, 2] (Data [3] End))
   \<and> failure (Data [1, 2] (Data [3] End)) = None
   \<and> earliest (destroy_requests host0 None) = None
   \<and> sizeBytes objectC = 7
   \<and> downloadS3File host0 store objectC None disk0 = (Inr (Buffer [1, 2, 3]), disk0)
   \<and> downloadS3File host0 store (objectC\<lparr>sizeBytes := 1\<rparr>) None disk0 = (Inr (Buffer [1, 2, 3]), disk0)
   \<and> streamToBuffer (Data [1, 2] (Data [3] End)) 1 = Inr [1, 2, 3]"
proof -
  have b: "Option.bind (None :: DownloadFileOptions option) saveLocation = None" by simp
  have f: "failure (Data [1, 2] (Data [3] End)) = None" by simp
  have q: "earliest (destroy_requests host0 None) = None" by (simp add: destroy_requests_def)
  have u: "case earliest (destroy_requests host0 None) of
             None \<Rightarrow> True | Some (k, err) \<Rightarrow> chunk_count (Data [1, 2] (Data [3] End)) < k"
    by (simp add: q)
  have z: "sizeBytes objectC = 7" "objectC\<lparr>sizeBytes := 7\<rparr> = objectC" by (simp_all add: objectC_def)
  have one: "downloadS3File host0 store (objectC\<lparr>sizeBytes := 1\<rparr>) None disk0
      = (Inr (Buffer [1, 2, 3]), disk0)"
    using buffer_download_returns_stream_bytes[OF store_c b f u, of 1 disk0] by simp
  have seven: "downloadS3File host0 store objectC None disk0 = (Inr (Buffer [1, 2, 3]), disk0)"
    using buffer_download_returns_stream_bytes[OF store_c b f u, of 7 disk0] by (simp add: z)
  have p: "streamToBuffer (Data [1, 2] (Data [3] End)) 1 = Inr [1, 2, 3]"
    by (simp add: streamToBuffer_def allocate_def writeChunk_def contents_def Let_def)
  from store_c f q z(1) one seven p show ?thesis by blast
qed


subsection \<open>Progress reports\<close>

lemma percentage_bounds: "0 \<le> percentage totalBytes loaded \<and> percentage totalBytes loaded \<le> 100"
proof (cases "totalBytes \<le> loaded")
  case True
  then show ?thesis by (simp add: percentage_def)
next
  case False
  then have "(of_nat loaded :: rat) \<le> of_nat totalBytes" "(0::rat) < of_nat totalBytes"
    by simp_all
  then have "(of_nat loaded :: rat) / of_nat totalBytes \<le> 1" by (simp add: divide_le_eq)
  then have "100 * ((of_nat loaded :: rat) / of_nat totalBytes) \<le> 100" by simp
  with False show ?thesis by (simp add: percentage_def)
qed

lemma percentage_mono:
  assumes "a \<le> b"
  shows "percentage totalBytes a \<le> percentage totalBytes b"
proof (cases "totalBytes \<le> b")
  case True
  then show ?thesis using percentage_bounds[of totalBytes a] by (simp add: percentage_def)
next
  case False
  with assms have "\<not> totalBytes \<le> a" by simp
  moreover have "(of_nat a :: rat) / of_nat totalBytes \<le> of_nat b / of_nat totalBytes"
    using assms by (simp add: divide_right_mono)
  ultimately show ?thesis using False by (simp add: percentage_def)
qed

lemma reports_lower:
  "p \<in> set (reports totalBytes loaded deltas) \<Longrightarrow> percentage totalBytes loaded \<le> p"
proof (induction deltas arbitrary: loaded)
  case Nil
  then show ?case by simp
next
  case (Cons d ds)
  have m: "percentage totalBytes loaded \<le> percentage totalBytes (loaded + d)"
    by (rule percentage_mono) simp
  from Cons.prems consider "p = percentage totalBytes (loaded + d)"
    | "p \<in> set (reports totalBytes (loaded + d) ds)" by auto
  then show ?case
  proof cases
    case 1
    with m show ?thesis by simp
  next
    case 2
    from Cons.IH[OF 2] m show ?thesis by simp
  qed
qed

lemma sorted_reports: "sorted (reports totalBytes loaded deltas)"
  by (induction deltas arbitrary: loaded) (auto dest: reports_lower)

lemma length_reports: "length (reports totalBytes loaded deltas) = length deltas"
  by (induction deltas arbitrary: loaded) auto

lemma nth_reports:
  "i < length deltas \<Longrightarrow>
     reports totalBytes loaded deltas ! i = percentage totalBytes (loaded + sum_list (take (Suc i) deltas))"
proof (induction deltas arbitrary: loaded i)
  case Nil
  then show ?case by simp
next
  case (Cons d ds)
  show ?case
  proof (cases i)
    case 0
    then show ?thesis by simp
  next
    case (Suc j)
    with Cons.prems have "j < length ds" by simp
    from Cons.IH[OF this, of "loaded + d"] Suc show ?thesis by (simp add: add.assoc)
  qed
qed

text \<open>
  C7: for every hint and every sequence of byte-count deltas, the percentages reported
  are non-decreasing and lie in [0, 100]; there is one report per delta, computed from
  the running total, and once the running total exceeds the hint the report is 100.
\<close>

theorem progress_reports_monotone_and_clamped:
  "sorted (progressReporter totalBytes deltas)
   \<and> (\<forall>p \<in> set (progressReporter totalBytes deltas). 0 \<le> p \<and> p \<le> 100)
   \<and> length (progressReporter totalBytes deltas) = length deltas
   \<and> (\<forall>i < length deltas.
         progressReporter totalBytes deltas ! i
           = percentage totalBytes (sum_list (take (Suc i) deltas)))
   \<and> (\<forall>i < length deltas. totalBytes < sum_list (take (Suc i) deltas)
         \<longrightarrow> progressReporter totalBytes deltas ! i = 100)"
proof (intro conjI ballI allI impI)
  show "sorted (progressReporter totalBytes deltas)"
    by (simp add: progressReporter_def sorted_reports)
  show "length (progressReporter totalBytes deltas) = length deltas"
    by (simp add: progressReporter_def length_reports)
next
  fix p assume "p \<in> set (progressReporter totalBytes deltas)"
  then obtain i where i: "i < length deltas" "p = progressReporter totalBytes deltas ! i"
    by (auto simp: in_set_conv_nth progressReporter_def length_reports)
  then have e: "p = percentage totalBytes (sum_list (take (Suc i) deltas))"
    by (simp add: progressReporter_def nth_reports)
  show "0 \<le> p" "p \<le> 100" using percentage_bounds e by simp_all
next
  fix i assume i: "i < length deltas"
  then show n: "progressReporter totalBytes deltas ! i
           = percentage totalBytes (sum_list (take (Suc i) deltas))"
    by (simp add: progressReporter_def nth_reports)
  assume "totalBytes < sum_list (take (Suc i) deltas)"
  then show "progressReporter totalBytes deltas ! i = 100"
    by (simp add: n percentage_def)
qed

theorem progress_reports_monotone_and_clamped_witness:
  "progressReporter 10 [4, 4, 4] = [40, 80, 100]
   \<and> sorted (progressReporter 10 [4, 4, 4])
   \<and> 40 \<in> set (progressReporter 10 [4, 4, 4])
   \<and> (2::nat) < length [4, 4, 4 :: nat]
   \<and> (10::nat) < sum_list (take (Suc 2) [4, 4, 4])
   \<and> progressReporter 10 [4, 4, 4] ! 2 = 100
   \<and> progressReporter 0 [0, 5] = [100, 100]"
proof -
  have v: "progressReporter 10 [4, 4, 4] = [40, 80, 100]"
    "progressReporter 0 [0, 5] = [100, 100]"
    by (simp_all add: progressReporter_def percentage_def)
  have l: "(2::nat) < length [4, 4, 4 :: nat]" by simp
  have x: "(10::nat) < sum_list (take (Suc 2) [4, 4, 4])" by simp
  have m: "(40::rat) \<in> set (progressReporter 10 [4, 4, 4])" by (simp add: v)
  from progress_reports_monotone_and_clamped[of 10 "[4, 4, 4]"]
  have s: "sorted (progressReporter 10 [4, 4, 4])"
    and c: "progressReporter 10 [4, 4, 4] ! 2 = 100"
    using l x by blast+
  from v l x m s c show ?thesis by blast
qed

subsection \<open>The sidecar environment client\<close>

lemma endpoint_default:
  "endpoint (new_DefaultMdeEnvironmentClient None) = ''http://127.0.0.1:1339''"
  by (simp add: new_DefaultMdeEnvironmentClient_def MDE_ENVIRONMENT_ENDPOINT_def)

lemma endpoint_given: "endpoint (new_DefaultMdeEnvironmentClient (Some e)) = e"
  by (simp add: new_DefaultMdeEnvironmentClient_def)

text \<open>
  C9: the client constructed without an endpoint argument sends, for every request,
  exactly one call to the loopback endpoint: \<open>startDevfile\<close> POSTs the request as JSON
  to \<open>/start\<close> and returns nothing of the response; \<open>createDevfile\<close> POSTs the request as
  JSON to \<open>/devfile/create\<close> and returns the response body; \<open>getStatus\<close> GETs \<open>/status\<close>
  and returns the response body, whose status is one of \<open>PENDING\<close>, \<open>STABLE\<close>,
  \<open>CHANGED\<close> by its type.
\<close>

theorem sidecar_client_requests:
  "startDevfile (new_DefaultMdeEnvironmentClient None) got1 start =
     ([\<lparr>http_method = POST, url = ''http://127.0.0.1:1339/start'', json = Some (StartBody start)\<rparr>],
      case got1 \<lparr>http_method = POST, url = ''http://127.0.0.1:1339/start'',
                 json = Some (StartBody start)\<rparr> of
        Inl e \<Rightarrow> Inl e | Inr _ \<Rightarrow> Inr ())
   \<and> createDevfile (new_DefaultMdeEnvironmentClient None) got2 create =
     ([\<lparr>http_method = POST, url = ''http://127.0.0.1:1339/devfile/create'',
        json = Some (CreateBody create)\<rparr>],
      got2 \<lparr>http_method = POST, url = ''http://127.0.0.1:1339/devfile/create'',
            json = Some (CreateBody create)\<rparr>)
   \<and> getStatus (new_DefaultMdeEnvironmentClient None) got3 =
     ([\<lparr>http_method = GET, url = ''http://127.0.0.1:1339/status'', json = None\<rparr>],
      got3 \<lparr>http_method = GET, url = ''http://127.0.0.1:1339/status'', json = None\<rparr>)"
  by (simp add: startDevfile_def createDevfile_def getStatus_def endpoint_default Let_def
      split: sum.splits)


text \<open>
  C10: \<open>getEnvArn\<close> returns \<open>undefined\<close> exactly when the variable \<open>__ENVIRONMENT_ARN\<close> is
  unset or the empty string, and the variable's value otherwise; the getter \<open>arn\<close> returns
  the raw value, the empty string included.
\<close>

theorem getEnvArn_absent_iff_unset_or_empty:
  "(getEnvArn env = None) = (env ''__ENVIRONMENT_ARN'' = None \<or> env ''__ENVIRONMENT_ARN'' = Some [])
   \<and> getEnvArn env =
       (if env ''__ENVIRONMENT_ARN'' = None \<or> env ''__ENVIRONMENT_ARN'' = Some [] then None
        else env ''__ENVIRONMENT_ARN'')
   \<and> arn env = env ''__ENVIRONMENT_ARN''
   \<and> getEnvArn (env(''__ENVIRONMENT_ARN'' \<mapsto> [])) = None
   \<and> arn (env(''__ENVIRONMENT_ARN'' \<mapsto> [])) = Some []"
  by (auto simp: getEnvArn_def arn_def truthy_string_def ENVIRONMENT_ARN_KEY_def
      split: option.splits)

end
